theory Spec2Isabelle
  imports Main "HOL-Library.Sublist"
begin

section \<open>Authentication service of the dashboard: data model\<close>

text \<open>
  The class \<open>AuthServiceClass\<close> works on three stores: the user table behind
  \<open>AuthQueries\<close>, the key-value cache behind \<open>TipiCache\<close>, and the file
  \<open>/runtipi/state/password-change-request\<close>. Each operation is modelled as a function
  from the state of these stores to a result and the new state; a thrown
  \<open>TranslatedError\<close> is the left summand of the result.
\<close>

record user =
  user_id :: nat
  username :: string
  password :: string
  totpEnabled :: bool
  totpSecret :: "string option"
  salt :: "string option"
  user_locale :: string
  operator :: bool

record UsernamePasswordInput =
  input_username :: string
  input_password :: string
  input_locale :: "string option"

text \<open>The message keys of the errors the service throws, and the exception of \<open>decrypt\<close>.\<close>

datatype error =
    UserNotFound
  | InvalidCredentials
  | TotpSessionNotFound
  | TotpNotEnabled
  | TotpInvalidCode
  | NotAllowedInDemo
  | InvalidPassword
  | TotpAlreadyEnabled
  | AdminAlreadyExists
  | MissingEmailOrPassword
  | InvalidUsername
  | UserAlreadyExists
  | ErrorCreatingUser
  | NoChangePasswordRequest
  | OperatorNotFound
  | InvalidPasswordLength
  | InvalidLocale
  | DecryptError

text \<open>
  The libraries the service calls (argon2, validator, the TOTP authenticator, the cipher),
  JavaScript's \<open>Number\<close>, \<open>String.prototype.trim\<close> and
  \<open>String.prototype.toLowerCase\<close> (which work on Unicode text), and the helpers whose
  format the service does not fix are parameters: every theorem holds for each of them,
  whatever it computes. \<open>decrypt\<close> may throw, which is \<open>None\<close> here. Random draws
  (\<open>uuidv4()\<close>, the draw inside \<open>generateSessionId\<close> and \<open>generateSecret\<close>) are
  explicit arguments of the operations.
\<close>

record env =
  argon2_verify :: "string \<Rightarrow> string \<Rightarrow> bool"
  argon2_hash :: "string \<Rightarrow> string"
  isEmail :: "string \<Rightarrow> bool"
  encrypt :: "string \<Rightarrow> string \<Rightarrow> string"
  decrypt :: "string \<Rightarrow> string \<Rightarrow> string option"
  totp_check :: "string \<Rightarrow> string \<Rightarrow> bool"
  totp_keyuri :: "string \<Rightarrow> string \<Rightarrow> string \<Rightarrow> string"
  generateSessionId :: "string \<Rightarrow> string \<Rightarrow> string"
  getLocaleFromString :: "string option \<Rightarrow> string"
  Locales :: "string list"
  Number :: "string \<Rightarrow> nat option"
  trim :: "string \<Rightarrow> string"
  toLowerCase :: "string \<Rightarrow> string"

record state =
  users :: "user list"
  cache :: "(string \<times> string) list"
  files :: "string list"
  demoMode :: bool

section \<open>JavaScript values\<close>

text \<open>\<open>!x\<close> for a string that may be null: null and the empty string are falsy.\<close>

definition falsy :: "string option \<Rightarrow> bool" where
  "falsy x = (case x of None \<Rightarrow> True | Some v \<Rightarrow> v = [])"

text \<open>\<open>n.toString()\<close> and the template \<open>${n}\<close> for a non-negative integer: decimal digits.\<close>

definition digit :: "nat \<Rightarrow> char" where
  "digit d = ''0123456789'' ! d"

fun toString :: "nat \<Rightarrow> string" where
  "toString n =
     (if n < 10 then [digit n]
      else toString (n div 10) @ [digit (n mod 10)])"

declare toString.simps [simp del]

section \<open>The stores\<close>

subsection \<open>TipiCache\<close>

text \<open>
  Modelled from the spec: the class \<open>TipiCache\<close> is not among the sources. The spec
  gives it \<open>set(key, value)\<close>, \<open>get(key)\<close>, \<open>del(key)\<close> and
  \<open>getByPrefix(prefix)\<close>, a list of the entries whose key starts with the prefix. Every
  instance is a handle on the same store; the name passed to the constructor selects
  nothing. Expiry of entries is not modelled.
\<close>

definition cache_get :: "string \<Rightarrow> (string \<times> string) list \<Rightarrow> string option" where
  "cache_get k c = map_of c k"

definition cache_del :: "string \<Rightarrow> (string \<times> string) list \<Rightarrow> (string \<times> string) list" where
  "cache_del k c = filter (\<lambda>kv. fst kv \<noteq> k) c"

definition cache_set :: "string \<Rightarrow> string \<Rightarrow> (string \<times> string) list \<Rightarrow> (string \<times> string) list" where
  "cache_set k v c = (k, v) # cache_del k c"

definition getByPrefix :: "string \<Rightarrow> (string \<times> string) list \<Rightarrow> (string \<times> string) list" where
  "getByPrefix p c = filter (\<lambda>kv. prefix p (fst kv)) c"

subsection \<open>Session helpers\<close>

definition primary_key :: "string \<Rightarrow> string" where
  "primary_key sessionId = ''session:'' @ sessionId"

definition tracking_prefix :: "string \<Rightarrow> string" where
  "tracking_prefix userId = ''session:'' @ userId @ '':''"

definition tracking_key :: "string \<Rightarrow> string \<Rightarrow> string" where
  "tracking_key userId sessionId = tracking_prefix userId @ sessionId"

text \<open>
  Modelled from the spec: \<open>setSession\<close> of \<open>session.helpers\<close> is not among the sources.
  The spec's data model gives the two entries of a session: the primary key
  \<open>session:<sessionId>\<close> with the user id as its value, and the tracking key
  \<open>session:<userId>:<sessionId>\<close> with the value \<open><sessionId>\<close>. The cookie it sets
  belongs to the transport layer and is left out.
\<close>

definition setSession :: "string \<Rightarrow> string \<Rightarrow> (string \<times> string) list \<Rightarrow> (string \<times> string) list" where
  "setSession sessionId userId c =
     cache_set (tracking_key userId sessionId) sessionId
       (cache_set (primary_key sessionId) userId c)"

subsection \<open>AuthQueries\<close>

text \<open>
  Modelled from the spec: the class \<open>AuthQueries\<close> is not among the sources. The spec
  lists its queries; each read returns absent when no row matches. \<open>updateUser\<close> changes
  the fields given in every row with the id (the id is the table's key), written here as
  a function on the row. \<open>createUser\<close> appends a row with the next id, TOTP not
  enrolled.
\<close>

definition getUserByUsername :: "string \<Rightarrow> user list \<Rightarrow> user option" where
  "getUserByUsername name db = find (\<lambda>u. username u = name) db"

definition getUserById :: "nat \<Rightarrow> user list \<Rightarrow> user option" where
  "getUserById i db = find (\<lambda>u. user_id u = i) db"

definition getOperators :: "user list \<Rightarrow> user list" where
  "getOperators db = filter operator db"

definition getFirstOperator :: "user list \<Rightarrow> user option" where
  "getFirstOperator db = find operator db"

definition updateUser :: "nat \<Rightarrow> (user \<Rightarrow> user) \<Rightarrow> user list \<Rightarrow> user list" where
  "updateUser i f db = map (\<lambda>u. if user_id u = i then f u else u) db"

definition nextId :: "user list \<Rightarrow> nat" where
  "nextId db = Suc (foldr (\<lambda>u m. max (user_id u) m) db 0)"

definition createUser :: "string \<Rightarrow> string \<Rightarrow> bool \<Rightarrow> string \<Rightarrow> user list \<Rightarrow> user option \<times> user list" where
  "createUser name hash isOperator loc db =
     (let newUser = \<lparr>user_id = nextId db, username = name, password = hash,
                      totpEnabled = False, totpSecret = None, salt = None,
                      user_locale = loc, operator = isOperator\<rparr>
      in (Some newUser, db @ [newUser]))"

record userDto =
  dto_id :: nat
  dto_username :: string
  dto_totpEnabled :: bool
  dto_locale :: string
  dto_operator :: bool

definition getUserDtoById :: "nat \<Rightarrow> user list \<Rightarrow> userDto option" where
  "getUserDtoById i db =
     map_option (\<lambda>u. \<lparr>dto_id = user_id u, dto_username = username u,
                       dto_totpEnabled = totpEnabled u, dto_locale = user_locale u,
                       dto_operator = operator u\<rparr>) (getUserById i db)"

subsection \<open>The password-change request file\<close>

definition request_path :: string where
  "request_path = ''/runtipi/state/password-change-request''"

text \<open>
  Modelled from the spec: \<open>fileExists\<close> and \<open>unlinkFile\<close> of \<open>fs.helpers\<close> are not among
  the sources; the file system is the list of the paths that exist.
\<close>

definition fileExists :: "string \<Rightarrow> string list \<Rightarrow> bool" where
  "fileExists p fs = (p \<in> set fs)"

definition unlinkFile :: "string \<Rightarrow> string list \<Rightarrow> string list" where
  "unlinkFile p fs = removeAll p fs"

section \<open>The operations of AuthServiceClass\<close>

datatype login_result = SessionId string | TotpSessionId string

definition login :: "env \<Rightarrow> UsernamePasswordInput \<Rightarrow> string \<Rightarrow> state \<Rightarrow> (error + login_result) \<times> state" where
  "login e input rnd s =
     (case getUserByUsername (input_username input) (users s) of
        None \<Rightarrow> (Inl UserNotFound, s)
      | Some u \<Rightarrow>
          if \<not> argon2_verify e (password u) (input_password input) then (Inl InvalidCredentials, s)
          else if totpEnabled u then
            (let totpSessionId = generateSessionId e ''otp'' rnd
             in (Inr (TotpSessionId totpSessionId),
                 s\<lparr>cache := cache_set totpSessionId (toString (user_id u)) (cache s)\<rparr>))
          else
            (let sessionId = rnd
             in (Inr (SessionId sessionId),
                 s\<lparr>cache := setSession sessionId (toString (user_id u)) (cache s)\<rparr>)))"

text \<open>\<open>getUserById(Number(userId))\<close>: no row has the id NaN.\<close>

definition getUserByIdString :: "env \<Rightarrow> string \<Rightarrow> user list \<Rightarrow> user option" where
  "getUserByIdString e v db = (case Number e v of None \<Rightarrow> None | Some i \<Rightarrow> getUserById i db)"

definition verifyTotp :: "env \<Rightarrow> string \<Rightarrow> string \<Rightarrow> string \<Rightarrow> state \<Rightarrow> (error + bool) \<times> state" where
  "verifyTotp e totpSessionId totpCode rnd s =
     (let userId = cache_get totpSessionId (cache s) in
      if falsy userId then (Inl TotpSessionNotFound, s)
      else case getUserByIdString e (the userId) (users s) of
        None \<Rightarrow> (Inl UserNotFound, s)
      | Some u \<Rightarrow>
          if \<not> totpEnabled u \<or> falsy (totpSecret u) \<or> falsy (salt u) then (Inl TotpNotEnabled, s)
          else case decrypt e (the (totpSecret u)) (the (salt u)) of
            None \<Rightarrow> (Inl DecryptError, s)
          | Some secret \<Rightarrow>
              if \<not> totp_check e totpCode secret then (Inl TotpInvalidCode, s)
              else
                (let sessionId = rnd
                 in (Inr True, s\<lparr>cache := setSession sessionId (toString (user_id u)) (cache s)\<rparr>)))"

definition getTotpUri :: "env \<Rightarrow> nat \<Rightarrow> string \<Rightarrow> string \<Rightarrow> string \<Rightarrow> state \<Rightarrow> (error + string \<times> string) \<times> state" where
  "getTotpUri e userId pw newTotpSecret rnd s =
     (if demoMode s then (Inl NotAllowedInDemo, s)
      else case getUserById userId (users s) of
        None \<Rightarrow> (Inl UserNotFound, s)
      | Some u \<Rightarrow>
          if \<not> argon2_verify e (password u) pw then (Inl InvalidPassword, s)
          else if totpEnabled u then (Inl TotpAlreadyEnabled, s)
          else
            (let salt' = (if falsy (salt u) then generateSessionId e [] rnd else the (salt u));
                 encryptedTotpSecret = encrypt e newTotpSecret salt'
             in (Inr (totp_keyuri e (username u) ''Runtipi'' newTotpSecret, newTotpSecret),
                 s\<lparr>users := updateUser userId
                     (\<lambda>r. r\<lparr>totpSecret := Some encryptedTotpSecret, salt := Some salt'\<rparr>) (users s)\<rparr>)))"

definition setupTotp :: "env \<Rightarrow> nat \<Rightarrow> string \<Rightarrow> state \<Rightarrow> (error + bool) \<times> state" where
  "setupTotp e userId totpCode s =
     (if demoMode s then (Inl NotAllowedInDemo, s)
      else case getUserById userId (users s) of
        None \<Rightarrow> (Inl UserNotFound, s)
      | Some u \<Rightarrow>
          if totpEnabled u \<or> falsy (totpSecret u) \<or> falsy (salt u) then (Inl TotpAlreadyEnabled, s)
          else case decrypt e (the (totpSecret u)) (the (salt u)) of
            None \<Rightarrow> (Inl DecryptError, s)
          | Some secret \<Rightarrow>
              if \<not> totp_check e totpCode secret then (Inl TotpInvalidCode, s)
              else (Inr True,
                    s\<lparr>users := updateUser userId (\<lambda>r. r\<lparr>totpEnabled := True\<rparr>) (users s)\<rparr>))"

definition disableTotp :: "env \<Rightarrow> nat \<Rightarrow> string \<Rightarrow> state \<Rightarrow> (error + bool) \<times> state" where
  "disableTotp e userId pw s =
     (case getUserById userId (users s) of
        None \<Rightarrow> (Inl UserNotFound, s)
      | Some u \<Rightarrow>
          if \<not> totpEnabled u then (Inl TotpNotEnabled, s)
          else if \<not> argon2_verify e (password u) pw then (Inl InvalidPassword, s)
          else (Inr True,
                s\<lparr>users := updateUser userId
                    (\<lambda>r. r\<lparr>totpEnabled := False, totpSecret := None\<rparr>) (users s)\<rparr>))"

definition register :: "env \<Rightarrow> UsernamePasswordInput \<Rightarrow> string \<Rightarrow> state \<Rightarrow> (error + bool) \<times> state" where
  "register e input rnd s =
     (if length (getOperators (users s)) > 0 then (Inl AdminAlreadyExists, s)
      else
        (let email = toLowerCase e (trim e (input_username input)) in
         if input_username input = [] \<or> input_password input = [] then (Inl MissingEmailOrPassword, s)
         else if length (input_username input) < 3 \<or> \<not> isEmail e email then (Inl InvalidUsername, s)
         else case getUserByUsername email (users s) of
           Some existing \<Rightarrow> (Inl UserAlreadyExists, s)
         | None \<Rightarrow>
             (let hash = argon2_hash e (input_password input) in
              case createUser email hash True (getLocaleFromString e (input_locale input)) (users s) of
                (None, db) \<Rightarrow> (Inl ErrorCreatingUser, s\<lparr>users := db\<rparr>)
              | (Some newUser, db) \<Rightarrow>
                  (let sessionId = rnd
                   in (Inr True,
                       s\<lparr>users := db,
                         cache := setSession sessionId (toString (user_id newUser)) (cache s)\<rparr>)))))"

definition me :: "nat option \<Rightarrow> state \<Rightarrow> userDto option" where
  "me userId s =
     (case userId of
        None \<Rightarrow> None
      | Some i \<Rightarrow> if i = 0 then None else getUserDtoById i (users s))"

definition logout :: "string \<Rightarrow> state \<Rightarrow> bool \<times> state" where
  "logout sessionId s = (True, s\<lparr>cache := cache_del (''session:'' @ sessionId) (cache s)\<rparr>)"

definition isConfigured :: "state \<Rightarrow> bool" where
  "isConfigured s = (length (getOperators (users s)) > 0)"

definition checkPasswordChangeRequest :: "state \<Rightarrow> bool" where
  "checkPasswordChangeRequest s = (if fileExists request_path (files s) then True else False)"

definition changeOperatorPassword :: "env \<Rightarrow> string \<Rightarrow> state \<Rightarrow> (error + string) \<times> state" where
  "changeOperatorPassword e newPassword s =
     (if \<not> checkPasswordChangeRequest s then (Inl NoChangePasswordRequest, s)
      else case getFirstOperator (users s) of
        None \<Rightarrow> (Inl OperatorNotFound, s)
      | Some u \<Rightarrow>
          (let hash = argon2_hash e newPassword
           in (Inr (username u),
               s\<lparr>users := updateUser (user_id u)
                   (\<lambda>r. r\<lparr>password := hash, totpEnabled := False, totpSecret := None\<rparr>) (users s),
                 files := unlinkFile request_path (files s)\<rparr>)))"

definition cancelPasswordChangeRequest :: "state \<Rightarrow> bool \<times> state" where
  "cancelPasswordChangeRequest s =
     (if fileExists request_path (files s)
      then (True, s\<lparr>files := unlinkFile request_path (files s)\<rparr>)
      else (True, s))"

text \<open>
  The sweep: every entry under the user's tracking prefix is deleted, and the key its
  value names when the value is truthy. The deletions of \<open>Promise.all\<close> commute, so
  they are taken in the order of the list.
\<close>

definition destroySession :: "string \<times> string \<Rightarrow> (string \<times> string) list \<Rightarrow> (string \<times> string) list" where
  "destroySession session c =
     (let c' = cache_del (fst session) c
      in if snd session \<noteq> [] then cache_del (snd session) c' else c')"

definition destroyAllSessionsByUserId :: "nat \<Rightarrow> (string \<times> string) list \<Rightarrow> (string \<times> string) list" where
  "destroyAllSessionsByUserId userId c =
     (let sessions = getByPrefix (''session:'' @ toString userId @ '':'') c
      in fold destroySession sessions c)"

definition changePassword :: "env \<Rightarrow> string \<Rightarrow> string \<Rightarrow> nat \<Rightarrow> state \<Rightarrow> (error + bool) \<times> state" where
  "changePassword e currentPassword newPassword userId s =
     (if demoMode s then (Inl NotAllowedInDemo, s)
      else case getUserById userId (users s) of
        None \<Rightarrow> (Inl UserNotFound, s)
      | Some u \<Rightarrow>
          if \<not> argon2_verify e (password u) currentPassword then (Inl InvalidPassword, s)
          else if length newPassword < 8 then (Inl InvalidPasswordLength, s)
          else
            (let hash = argon2_hash e newPassword
             in (Inr True,
                 s\<lparr>users := updateUser (user_id u) (\<lambda>r. r\<lparr>password := hash\<rparr>) (users s),
                   cache := destroyAllSessionsByUserId (user_id u) (cache s)\<rparr>)))"

definition changeUsername :: "env \<Rightarrow> string \<Rightarrow> string \<Rightarrow> nat \<Rightarrow> state \<Rightarrow> (error + bool) \<times> state" where
  "changeUsername e newUsername pw userId s =
     (if demoMode s then (Inl NotAllowedInDemo, s)
      else case getUserById userId (users s) of
        None \<Rightarrow> (Inl UserNotFound, s)
      | Some u \<Rightarrow>
          if \<not> argon2_verify e (password u) pw then (Inl InvalidPassword, s)
          else
            (let email = toLowerCase e (trim e newUsername) in
             if \<not> isEmail e email then (Inl InvalidUsername, s)
             else case getUserByUsername email (users s) of
               Some existingUser \<Rightarrow> (Inl UserAlreadyExists, s)
             | None \<Rightarrow>
                 (Inr True,
                  s\<lparr>users := updateUser (user_id u) (\<lambda>r. r\<lparr>username := email\<rparr>) (users s),
                    cache := destroyAllSessionsByUserId (user_id u) (cache s)\<rparr>)))"

definition changeLocale :: "env \<Rightarrow> string \<Rightarrow> nat \<Rightarrow> state \<Rightarrow> (error + bool) \<times> state" where
  "changeLocale e loc userId s =
     (if loc \<notin> set (Locales e) then (Inl InvalidLocale, s)
      else case getUserById userId (users s) of
        None \<Rightarrow> (Inl UserNotFound, s)
      | Some u \<Rightarrow>
          (Inr True, s\<lparr>users := updateUser (user_id u) (\<lambda>r. r\<lparr>user_locale := loc\<rparr>) (users s)\<rparr>))"

subsection \<open>Requests\<close>

text \<open>
  One constructor for each public operation, with its arguments and random draws.
  \<open>run\<close> gives the error an operation throws, if any, and the state it leaves.
\<close>

datatype request =
    Login UsernamePasswordInput string
  | VerifyTotp string string string
  | GetTotpUri nat string string string
  | SetupTotp nat string
  | DisableTotp nat string
  | Register UsernamePasswordInput string
  | Me "nat option"
  | Logout string
  | IsConfigured
  | ChangeOperatorPassword string
  | CancelPasswordChangeRequest
  | ChangePassword string string nat
  | ChangeUsername string string nat
  | ChangeLocale string nat

definition thrown :: "(error + 'a) \<times> state \<Rightarrow> error option \<times> state" where
  "thrown r = (case fst r of Inl err \<Rightarrow> Some err | Inr v \<Rightarrow> None, snd r)"

fun run :: "env \<Rightarrow> request \<Rightarrow> state \<Rightarrow> error option \<times> state" where
  "run e (Login input rnd) s = thrown (login e input rnd s)"
| "run e (VerifyTotp totpSessionId totpCode rnd) s = thrown (verifyTotp e totpSessionId totpCode rnd s)"
| "run e (GetTotpUri userId pw secret rnd) s = thrown (getTotpUri e userId pw secret rnd s)"
| "run e (SetupTotp userId totpCode) s = thrown (setupTotp e userId totpCode s)"
| "run e (DisableTotp userId pw) s = thrown (disableTotp e userId pw s)"
| "run e (Register input rnd) s = thrown (register e input rnd s)"
| "run e (Me userId) s = (None, s)"
| "run e (Logout sessionId) s = (None, snd (logout sessionId s))"
| "run e IsConfigured s = (None, s)"
| "run e (ChangeOperatorPassword newPassword) s = thrown (changeOperatorPassword e newPassword s)"
| "run e CancelPasswordChangeRequest s = (None, snd (cancelPasswordChangeRequest s))"
| "run e (ChangePassword currentPassword newPassword userId) s =
     thrown (changePassword e currentPassword newPassword userId s)"
| "run e (ChangeUsername newUsername pw userId) s = thrown (changeUsername e newUsername pw userId s)"
| "run e (ChangeLocale loc userId) s = thrown (changeLocale e loc userId s)"

fun runs :: "env \<Rightarrow> request list \<Rightarrow> state \<Rightarrow> state" where
  "runs e [] s = s"
| "runs e (r # rs) s = runs e rs (snd (run e r s))"

section \<open>Invariants of the user table\<close>

text \<open>A row with TOTP enabled has a secret and a salt.\<close>

definition totp_enrolled_ok :: "user \<Rightarrow> bool" where
  "totp_enrolled_ok u = (if totpEnabled u then totpSecret u \<noteq> None \<and> salt u \<noteq> None else True)"

definition totp_invariant :: "user list \<Rightarrow> bool" where
  "totp_invariant db = list_all totp_enrolled_ok db"

text \<open>At most one row is an operator.\<close>

definition single_operator :: "user list \<Rightarrow> bool" where
  "single_operator db = (length (getOperators db) \<le> 1)"

text \<open>The id is the key of the table.\<close>

definition unique_ids :: "user list \<Rightarrow> bool" where
  "unique_ids db = distinct (map user_id db)"

section \<open>An example environment and example states\<close>

text \<open>
  Stand-ins for the libraries, simple enough to evaluate: a hash is \<open>$\<close> before the
  password, a ciphertext is the salt before the secret, the valid code is the seed itself,
  \<open>Number\<close> reads decimal numerals, and \<open>trim\<close> and \<open>toLowerCase\<close> are the ASCII
  part of the JavaScript functions (the examples are ASCII text).
\<close>

definition isWhiteSpace :: "char \<Rightarrow> bool" where
  "isWhiteSpace c = (c \<in> set [CHR 0x09, CHR 0x0A, CHR 0x0B, CHR 0x0C, CHR 0x0D, CHR 0x20])"

definition trim_ascii :: "string \<Rightarrow> string" where
  "trim_ascii s = rev (dropWhile isWhiteSpace (rev (dropWhile isWhiteSpace s)))"

definition lowerCaseOf :: "char \<Rightarrow> char" where
  "lowerCaseOf c =
     (case map_of (zip ''ABCDEFGHIJKLMNOPQRSTUVWXYZ'' ''abcdefghijklmnopqrstuvwxyz'') c of
        None \<Rightarrow> c
      | Some l \<Rightarrow> l)"

definition toLowerCase_ascii :: "string \<Rightarrow> string" where
  "toLowerCase_ascii s = map lowerCaseOf s"

definition parseDecimal :: "string \<Rightarrow> nat option" where
  "parseDecimal v =
     fold (\<lambda>c acc. case acc of
                      None \<Rightarrow> None
                    | Some a \<Rightarrow>
                        (case map_of (zip ''0123456789'' [0, 1, 2, 3, 4, 5, 6, 7, 8, 9]) c of
                           None \<Rightarrow> None
                         | Some d \<Rightarrow> Some (10 * a + d)))
       v (Some 0)"

definition env0 :: env where
  "env0 = \<lparr>argon2_verify = (\<lambda>h p. h = ''$'' @ p),
            argon2_hash = (\<lambda>p. ''$'' @ p),
            isEmail = (\<lambda>v. CHR ''@'' \<in> set v),
            encrypt = (\<lambda>v k. k @ v),
            decrypt = (\<lambda>c k. if prefix k c then Some (drop (length k) c) else None),
            totp_check = (\<lambda>code secret. code = secret),
            totp_keyuri = (\<lambda>name issuer secret. issuer @ '':'' @ name @ ''?'' @ secret),
            generateSessionId = (\<lambda>p r. p @ ''-'' @ r),
            getLocaleFromString = (\<lambda>l. case l of None \<Rightarrow> ''en'' | Some v \<Rightarrow> v),
            Locales = [''en'', ''fr''],
            Number = parseDecimal,
            trim = trim_ascii,
            toLowerCase = toLowerCase_ascii\<rparr>"

definition alice :: user where
  "alice = \<lparr>user_id = 1, username = ''a@example.com'', password = ''$Secr3t!!'',
             totpEnabled = False, totpSecret = None, salt = None,
             user_locale = ''en'', operator = True\<rparr>"

definition bob :: user where
  "bob = \<lparr>user_id = 2, username = ''b@example.com'', password = ''$hunter22'',
           totpEnabled = True, totpSecret = Some ''k2SEED'', salt = Some ''k2'',
           user_locale = ''en'', operator = False\<rparr>"

definition alice_input :: UsernamePasswordInput where
  "alice_input = \<lparr>input_username = ''a@example.com'', input_password = ''Secr3t!!'',
                   input_locale = None\<rparr>"

definition bob_input :: UsernamePasswordInput where
  "bob_input = \<lparr>input_username = ''b@example.com'', input_password = ''hunter22'',
                 input_locale = None\<rparr>"

text \<open>The state of a fresh installation.\<close>

definition state_init :: state where
  "state_init = \<lparr>users = [], cache = [], files = [], demoMode = False\<rparr>"

text \<open>No session yet, no request file.\<close>

definition state0 :: state where
  "state0 = \<lparr>users = [alice, bob], cache = [], files = [], demoMode = False\<rparr>"

text \<open>
  A pending challenge of bob, one session of each user, and the request file.
\<close>

definition state1 :: state where
  "state1 = \<lparr>users = [alice, bob],
              cache = [(''otp-c1'', ''2''),
                       (''session:2:s9'', ''s9''), (''session:s9'', ''2''),
                       (''session:1:s1'', ''s1''), (''session:s1'', ''1'')],
              files = [request_path], demoMode = False\<rparr>"

text \<open>A user who has asked for a TOTP secret and has not confirmed it yet.\<close>

definition carol :: user where
  "carol = \<lparr>user_id = 3, username = ''c@example.com'', password = ''$pa55word'',
             totpEnabled = False, totpSecret = Some ''k3SEED3'', salt = Some ''k3'',
             user_locale = ''fr'', operator = False\<rparr>"

definition state2 :: state where
  "state2 = \<lparr>users = [alice, bob, carol], cache = [], files = [], demoMode = False\<rparr>"

section \<open>The cache\<close>

lemma cache_get_del: "cache_get k (cache_del k' c) = (if k = k' then None else cache_get k c)"
  by (induction c) (auto simp: cache_get_def cache_del_def)

lemma cache_get_set: "cache_get k (cache_set k' v c) = (if k = k' then Some v else cache_get k c)"
  using cache_get_del [of k k' c] by (simp add: cache_set_def cache_get_def)

lemma cache_get_setSession:
  "cache_get k (setSession sessionId userId c) =
     (if k = tracking_key userId sessionId then Some sessionId
      else if k = primary_key sessionId then Some userId
      else cache_get k c)"
  by (simp add: setSession_def cache_get_set)

lemma toString_not_Nil: "toString n \<noteq> []"
  by (subst toString.simps) simp

lemma primary_not_tracking: "primary_key sessionId \<noteq> tracking_key userId sessionId"
  by (simp add: primary_key_def tracking_key_def tracking_prefix_def)

lemma toString_1: "toString (Suc 0) = ''1''"
  by (simp add: toString.simps digit_def)

lemma toString_2: "toString 2 = ''2''"
  by (simp add: toString.simps digit_def)

lemmas fixtures =
  env0_def alice_def bob_def alice_input_def bob_input_def state0_def state1_def
  getUserByUsername_def getUserById_def toString_1 toString_2

section \<open>Login\<close>

text \<open>
  Claim C2. For a user whose password matches: when \<open>totpEnabled\<close> is false, \<open>login\<close>
  returns the session id it drew and writes the two entries of that session, the primary
  key holding the user's id, and no other cache key changes (no challenge is created);
  when \<open>totpEnabled\<close> is true, it returns the challenge id, the cache maps the challenge
  id to the user's id, and no other cache key changes (no session is created).
\<close>

theorem login_session_or_challenge:
  assumes "getUserByUsername (input_username input) (users s) = Some u"
    and "argon2_verify e (password u) (input_password input)"
  shows "(\<not> totpEnabled u \<longrightarrow>
            login e input rnd s =
              (Inr (SessionId rnd), s\<lparr>cache := setSession rnd (toString (user_id u)) (cache s)\<rparr>)
            \<and> cache_get (primary_key rnd) (cache (snd (login e input rnd s))) = Some (toString (user_id u))
            \<and> (\<forall>k. k \<noteq> primary_key rnd \<and> k \<noteq> tracking_key (toString (user_id u)) rnd \<longrightarrow>
                  cache_get k (cache (snd (login e input rnd s))) = cache_get k (cache s)))
       \<and> (totpEnabled u \<longrightarrow>
            login e input rnd s =
              (Inr (TotpSessionId (generateSessionId e ''otp'' rnd)),
               s\<lparr>cache := cache_set (generateSessionId e ''otp'' rnd) (toString (user_id u)) (cache s)\<rparr>)
            \<and> cache_get (generateSessionId e ''otp'' rnd) (cache (snd (login e input rnd s)))
                = Some (toString (user_id u))
            \<and> (\<forall>k. k \<noteq> generateSessionId e ''otp'' rnd \<longrightarrow>
                  cache_get k (cache (snd (login e input rnd s))) = cache_get k (cache s)))"
  using assms
  by (simp add: login_def Let_def cache_get_set cache_get_setSession primary_not_tracking)

theorem login_session_or_challenge_witness:
  "getUserByUsername (input_username alice_input) (users state0) = Some alice
   \<and> argon2_verify env0 (password alice) (input_password alice_input)
   \<and> \<not> totpEnabled alice
   \<and> login env0 alice_input ''s1'' state0 =
        (Inr (SessionId ''s1''),
         state0\<lparr>cache := [(''session:1:s1'', ''s1''), (''session:s1'', ''1'')]\<rparr>)
   \<and> getUserByUsername (input_username bob_input) (users state0) = Some bob
   \<and> argon2_verify env0 (password bob) (input_password bob_input)
   \<and> totpEnabled bob
   \<and> login env0 bob_input ''c1'' state0 =
        (Inr (TotpSessionId ''otp-c1''), state0\<lparr>cache := [(''otp-c1'', ''2'')]\<rparr>)"
proof -
  have a: "getUserByUsername (input_username alice_input) (users state0) = Some alice"
    by (simp add: fixtures)
  have a': "argon2_verify env0 (password alice) (input_password alice_input)"
    by (simp add: fixtures)
  have na: "\<not> totpEnabled alice"
    by (simp add: alice_def)
  have b: "getUserByUsername (input_username bob_input) (users state0) = Some bob"
    by (simp add: fixtures)
  have b': "argon2_verify env0 (password bob) (input_password bob_input)"
    by (simp add: fixtures)
  have tb: "totpEnabled bob"
    by (simp add: bob_def)
  have ea: "setSession ''s1'' (toString (user_id alice)) (cache state0) =
              [(''session:1:s1'', ''s1''), (''session:s1'', ''1'')]"
    by (simp add: fixtures setSession_def cache_set_def cache_del_def primary_key_def
        tracking_key_def tracking_prefix_def)
  have eb: "generateSessionId env0 ''otp'' ''c1'' = ''otp-c1''"
    by (simp add: env0_def)
  have eb': "cache_set ''otp-c1'' (toString (user_id bob)) (cache state0) = [(''otp-c1'', ''2'')]"
    by (simp add: fixtures cache_set_def cache_del_def)
  have ra: "login env0 alice_input ''s1'' state0 =
        (Inr (SessionId ''s1''),
         state0\<lparr>cache := [(''session:1:s1'', ''s1''), (''session:s1'', ''1'')]\<rparr>)"
  proof -
    have "login env0 alice_input ''s1'' state0 =
        (Inr (SessionId ''s1''),
         state0\<lparr>cache := setSession ''s1'' (toString (user_id alice)) (cache state0)\<rparr>)"
      using login_session_or_challenge [OF a a', of "''s1''"] na by blast
    then show ?thesis by (simp only: ea)
  qed
  have rb: "login env0 bob_input ''c1'' state0 =
        (Inr (TotpSessionId ''otp-c1''), state0\<lparr>cache := [(''otp-c1'', ''2'')]\<rparr>)"
  proof -
    have "login env0 bob_input ''c1'' state0 =
        (Inr (TotpSessionId (generateSessionId env0 ''otp'' ''c1'')),
         state0\<lparr>cache := cache_set (generateSessionId env0 ''otp'' ''c1'')
                            (toString (user_id bob)) (cache state0)\<rparr>)"
      using login_session_or_challenge [OF b b', of "''c1''"] tb by blast
    then show ?thesis by (simp only: eb eb')
  qed
  from a a' na ra b b' tb rb show ?thesis by blast
qed

section \<open>Second-factor verification\<close>



lemma verifyTotp_failure_state:
  "fst (verifyTotp e totpSessionId totpCode rnd s) \<noteq> Inr True \<Longrightarrow>
   snd (verifyTotp e totpSessionId totpCode rnd s) = s"
  by (auto simp: verifyTotp_def Let_def split: option.splits if_splits)

lemma verifyTotp_success_state:
  "fst (verifyTotp e totpSessionId totpCode rnd s) = Inr True \<Longrightarrow>
   snd (verifyTotp e totpSessionId totpCode rnd s) =
     s\<lparr>cache := setSession rnd
        (toString (user_id (the (getUserByIdString e (the (cache_get totpSessionId (cache s))) (users s)))))
        (cache s)\<rparr>"
  by (auto simp: verifyTotp_def Let_def split: option.splits if_splits)

lemma verifyTotp_cache:
  "cache (snd (verifyTotp e totpSessionId totpCode rnd s)) = cache s
   \<or> (\<exists>userId. userId \<noteq> [] \<and>
         cache (snd (verifyTotp e totpSessionId totpCode rnd s)) = setSession rnd userId (cache s))"
proof (cases "fst (verifyTotp e totpSessionId totpCode rnd s) = Inr True")
  case False
  then show ?thesis by (simp add: verifyTotp_failure_state)
next
  case True
  from verifyTotp_success_state [OF True] show ?thesis
    using toString_not_Nil by (intro disjI2 exI conjI) simp_all
qed




lemma state1_cache_get_challenge: "cache_get ''otp-c1'' (cache state1) = Some ''2''"
  by (simp add: state1_def cache_get_def)

lemma parseDecimal_2: "parseDecimal ''2'' = Some 2"
  by (simp add: parseDecimal_def)

lemma getUserByIdString_bob: "getUserByIdString env0 ''2'' [alice, bob] = Some bob"
  by (simp add: getUserByIdString_def parseDecimal_2 fixtures)



lemma state1_users: "users state1 = [alice, bob]"
  by (simp add: state1_def)




text \<open>
  Claim C6. For a challenge that resolves to a user with TOTP enabled and a code valid for
  the decrypted seed, \<open>verifyTotp\<close> issues a session under the id it drew: the primary key
  of that id holds the user's id. What it returns is the boolean \<open>true\<close>; the session id
  is not part of the result.
\<close>

theorem verifyTotp_issues_session_returns_true:
  assumes "cache_get totpSessionId (cache s) = Some v" and "v \<noteq> []"
    and "getUserByIdString e v (users s) = Some u"
    and "totpEnabled u"
    and "totpSecret u = Some secret" and "secret \<noteq> []"
    and "salt u = Some slt" and "slt \<noteq> []"
    and "decrypt e secret slt = Some seed"
    and "totp_check e totpCode seed"
  shows "verifyTotp e totpSessionId totpCode rnd s =
           (Inr True, s\<lparr>cache := setSession rnd (toString (user_id u)) (cache s)\<rparr>)
       \<and> cache_get (primary_key rnd) (cache (snd (verifyTotp e totpSessionId totpCode rnd s)))
           = Some (toString (user_id u))"
  using assms
  by (simp add: verifyTotp_def falsy_def cache_get_setSession primary_not_tracking)

theorem verifyTotp_issues_session_returns_true_witness:
  "cache_get ''otp-c1'' (cache state1) = Some ''2'' \<and> ''2'' \<noteq> []
   \<and> getUserByIdString env0 ''2'' (users state1) = Some bob
   \<and> totpEnabled bob
   \<and> totpSecret bob = Some ''k2SEED'' \<and> ''k2SEED'' \<noteq> []
   \<and> salt bob = Some ''k2'' \<and> ''k2'' \<noteq> []
   \<and> decrypt env0 ''k2SEED'' ''k2'' = Some ''SEED''
   \<and> totp_check env0 ''SEED'' ''SEED''
   \<and> fst (verifyTotp env0 ''otp-c1'' ''SEED'' ''s2'' state1) = Inr True
   \<and> cache_get ''session:s2'' (cache (snd (verifyTotp env0 ''otp-c1'' ''SEED'' ''s2'' state1))) = Some ''2''"
proof -
  have h1: "cache_get ''otp-c1'' (cache state1) = Some ''2''"
    by (rule state1_cache_get_challenge)
  have h2: "''2'' \<noteq> []" by simp
  have h3: "getUserByIdString env0 ''2'' (users state1) = Some bob"
    by (simp add: getUserByIdString_bob state1_users)
  have h4: "totpEnabled bob" by (simp add: bob_def)
  have h5: "totpSecret bob = Some ''k2SEED''" by (simp add: bob_def)
  have h6: "''k2SEED'' \<noteq> []" by simp
  have h7: "salt bob = Some ''k2''" by (simp add: bob_def)
  have h8: "''k2'' \<noteq> []" by simp
  have h9: "decrypt env0 ''k2SEED'' ''k2'' = Some ''SEED''" by (simp add: env0_def)
  have h10: "totp_check env0 ''SEED'' ''SEED''" by (simp add: env0_def)
  have k: "primary_key ''s2'' = ''session:s2''" by (simp add: primary_key_def)
  have b: "toString (user_id bob) = ''2''" by (simp add: fixtures)
  note t = verifyTotp_issues_session_returns_true [OF h1 h2 h3 h4 h5 h6 h7 h8 h9 h10, of "''s2''"]
  from t [THEN conjunct1]
  have c1: "fst (verifyTotp env0 ''otp-c1'' ''SEED'' ''s2'' state1) = Inr True"
    by simp
  from t [THEN conjunct2]
  have c2: "cache_get ''session:s2'' (cache (snd (verifyTotp env0 ''otp-c1'' ''SEED'' ''s2'' state1))) = Some ''2''"
    by (simp only: k b)
  from h1 h2 h3 h4 h5 h6 h7 h8 h9 h10 c1 c2 show ?thesis by blast
qed

section \<open>Revoking the sessions of a user\<close>

lemma cache_get_destroySession:
  "cache_get k (destroySession session c) =
     (if k = fst session \<or> (snd session \<noteq> [] \<and> k = snd session) then None else cache_get k c)"
  by (simp add: destroySession_def Let_def cache_get_del)

lemma cache_get_fold_destroySession:
  "cache_get k (fold destroySession sessions c) =
     (if \<exists>session \<in> set sessions. k = fst session \<or> (snd session \<noteq> [] \<and> k = snd session)
      then None else cache_get k c)"
proof (induction sessions arbitrary: c)
  case Nil
  show ?case by simp
next
  case (Cons session sessions)
  show ?case
    by (auto simp: Cons.IH cache_get_destroySession)
qed

lemma getByPrefix_member:
  "cache_get k c = Some v \<Longrightarrow> prefix p k \<Longrightarrow> (k, v) \<in> set (getByPrefix p c)"
  by (auto simp: cache_get_def getByPrefix_def dest: map_of_SomeD)

lemma destroyAll_absent_stays:
  "cache_get k c = None \<Longrightarrow> cache_get k (destroyAllSessionsByUserId userId c) = None"
  by (simp add: destroyAllSessionsByUserId_def cache_get_fold_destroySession)

lemma destroyAll_tracking_gone:
  assumes "prefix (tracking_prefix (toString userId)) k"
  shows "cache_get k (destroyAllSessionsByUserId userId c) = None"
proof (cases "cache_get k c")
  case None
  then show ?thesis by (rule destroyAll_absent_stays)
next
  case (Some v)
  from getByPrefix_member [OF Some assms]
  have "\<exists>session \<in> set (getByPrefix (tracking_prefix (toString userId)) c). k = fst session"
    by force
  then show ?thesis
    by (auto simp: destroyAllSessionsByUserId_def cache_get_fold_destroySession tracking_prefix_def)
qed

lemma destroyAll_target_gone:
  assumes "prefix (tracking_prefix (toString userId)) k"
    and "cache_get k c = Some v" and "v \<noteq> []"
  shows "cache_get v (destroyAllSessionsByUserId userId c) = None"
proof -
  from getByPrefix_member [OF assms(2) assms(1)] assms(3)
  have "\<exists>session \<in> set (getByPrefix (tracking_prefix (toString userId)) c).
          snd session \<noteq> [] \<and> v = snd session"
    by force
  then show ?thesis
    by (auto simp: destroyAllSessionsByUserId_def cache_get_fold_destroySession tracking_prefix_def)
qed

lemma getUserById_id: "getUserById i db = Some u \<Longrightarrow> user_id u = i"
  by (auto simp: getUserById_def find_Some_iff)

lemma changePassword_success_cache:
  "changePassword e currentPassword newPassword userId s = (Inr True, s') \<Longrightarrow>
   cache s' = destroyAllSessionsByUserId userId (cache s)"
  by (auto simp: changePassword_def Let_def dest: getUserById_id split: if_splits option.splits)

lemma changeUsername_success_cache:
  "changeUsername e newUsername pw userId s = (Inr True, s') \<Longrightarrow>
   cache s' = destroyAllSessionsByUserId userId (cache s)"
  by (auto simp: changeUsername_def Let_def dest: getUserById_id split: if_splits option.splits)

lemma getByPrefix_fst: "session \<in> set (getByPrefix p c) \<Longrightarrow> prefix p (fst session)"
  by (simp add: getByPrefix_def)

lemma cache_get_destroyAll:
  "cache_get k (destroyAllSessionsByUserId userId c) =
     (if prefix (tracking_prefix (toString userId)) k
         \<or> (\<exists>session \<in> set (getByPrefix (tracking_prefix (toString userId)) c).
               snd session \<noteq> [] \<and> k = snd session)
      then None else cache_get k c)"
proof (cases "prefix (tracking_prefix (toString userId)) k")
  case True
  then show ?thesis by (simp add: destroyAll_tracking_gone)
next
  case False
  then have "\<forall>session \<in> set (getByPrefix (tracking_prefix (toString userId)) c). k \<noteq> fst session"
    using getByPrefix_fst by blast
  with False show ?thesis
    by (simp add: destroyAllSessionsByUserId_def cache_get_fold_destroySession tracking_prefix_def)
qed

text \<open>
  Claim C3. A successful \<open>changePassword\<close> or \<open>changeUsername\<close> of a user leaves the cache
  without exactly these keys: those under the user's tracking prefix
  \<open>session:<userId>:\<close>, and those that the truthy value of an entry under the prefix
  names; every other key keeps its value. So the sweep reaches a session only through its
  tracking entry, and a session of the user whose primary key no tracking entry names
  still resolves after the call, which is what the claim excludes.
\<close>

theorem credential_change_sweep:
  assumes "changePassword e currentPassword newPassword userId s = (Inr True, s')
           \<or> changeUsername e newUsername pw userId s = (Inr True, s')"
  shows "(\<forall>k. cache_get k (cache s') =
            (if prefix (tracking_prefix (toString userId)) k
                \<or> (\<exists>session \<in> set (getByPrefix (tracking_prefix (toString userId)) (cache s)).
                      snd session \<noteq> [] \<and> k = snd session)
             then None else cache_get k (cache s)))
       \<and> (\<forall>sessionId v.
            cache_get (primary_key sessionId) (cache s) = Some v
            \<and> \<not> prefix (tracking_prefix (toString userId)) (primary_key sessionId)
            \<and> (\<forall>session \<in> set (getByPrefix (tracking_prefix (toString userId)) (cache s)).
                  snd session \<noteq> primary_key sessionId)
            \<longrightarrow> cache_get (primary_key sessionId) (cache s') = Some v)"
proof -
  from assms have c: "cache s' = destroyAllSessionsByUserId userId (cache s)"
    using changePassword_success_cache changeUsername_success_cache by blast
  have k: "cache_get (primary_key sessionId) (cache s') = Some v"
    if "cache_get (primary_key sessionId) (cache s) = Some v"
      and "\<not> prefix (tracking_prefix (toString userId)) (primary_key sessionId)"
      and "\<forall>session \<in> set (getByPrefix (tracking_prefix (toString userId)) (cache s)).
             snd session \<noteq> primary_key sessionId"
    for sessionId v
  proof -
    from that(3)
    have "\<not> (\<exists>session \<in> set (getByPrefix (tracking_prefix (toString userId)) (cache s)).
                snd session \<noteq> [] \<and> primary_key sessionId = snd session)"
      by metis
    with that(1,2) show ?thesis
      by (simp add: c cache_get_destroyAll)
  qed
  show ?thesis
    using k by (simp add: c cache_get_destroyAll)
qed

text \<open>
  The failing input: alice logs in and gets the session \<open>s1\<close>; \<open>logout\<close> is called with
  the id \<open>1:s1\<close>, which deletes the key \<open>session:1:s1\<close>, the tracking entry of \<open>s1\<close>;
  alice changes her password. The session \<open>s1\<close> resolves to her id before the change and
  after it.
\<close>

lemma untracked_session_state:
  "runs env0 [Login alice_input ''s1'', Logout ''1:s1''] state0
     = state0\<lparr>cache := [(''session:s1'', ''1'')]\<rparr>"
  by (simp add: thrown_def login_def logout_def Let_def setSession_def cache_set_def cache_del_def
      primary_key_def tracking_key_def tracking_prefix_def fixtures)

lemma changePassword_untracked_session:
  "changePassword env0 ''Secr3t!!'' ''N3wSecret!'' 1 (state0\<lparr>cache := [(''session:s1'', ''1'')]\<rparr>)
     = (Inr True,
        state0\<lparr>users := [alice\<lparr>password := ''$N3wSecret!''\<rparr>, bob],
               cache := [(''session:s1'', ''1'')]\<rparr>)"
  by (simp add: changePassword_def updateUser_def destroyAllSessionsByUserId_def getByPrefix_def
      fixtures)

theorem credential_change_sweep_witness:
  "runs env0 [Login alice_input ''s1'', Logout ''1:s1''] state0
     = state0\<lparr>cache := [(''session:s1'', ''1'')]\<rparr>
   \<and> changePassword env0 ''Secr3t!!'' ''N3wSecret!'' 1 (state0\<lparr>cache := [(''session:s1'', ''1'')]\<rparr>)
     = (Inr True,
        state0\<lparr>users := [alice\<lparr>password := ''$N3wSecret!''\<rparr>, bob],
               cache := [(''session:s1'', ''1'')]\<rparr>)
   \<and> cache_get (primary_key ''s1'') (cache (state0\<lparr>cache := [(''session:s1'', ''1'')]\<rparr>)) = Some ''1''
   \<and> \<not> prefix (tracking_prefix (toString 1)) (primary_key ''s1'')
   \<and> getByPrefix (tracking_prefix (toString 1)) (cache (state0\<lparr>cache := [(''session:s1'', ''1'')]\<rparr>)) = []
   \<and> cache_get (primary_key ''s1'')
        (cache (state0\<lparr>users := [alice\<lparr>password := ''$N3wSecret!''\<rparr>, bob],
                      cache := [(''session:s1'', ''1'')]\<rparr>)) = Some ''1''"
proof -
  let ?s = "state0\<lparr>cache := [(''session:s1'', ''1'')]\<rparr>"
  let ?s' = "state0\<lparr>users := [alice\<lparr>password := ''$N3wSecret!''\<rparr>, bob],
                    cache := [(''session:s1'', ''1'')]\<rparr>"
  have g: "cache_get (primary_key ''s1'') (cache ?s) = Some ''1''"
    by (simp add: cache_get_def primary_key_def)
  have n: "\<not> prefix (tracking_prefix (toString 1)) (primary_key ''s1'')"
    by (simp add: tracking_prefix_def primary_key_def toString_1)
  have p: "getByPrefix (tracking_prefix (toString 1)) (cache ?s) = []"
    by (simp add: getByPrefix_def tracking_prefix_def toString_1)
  then have b: "\<forall>session \<in> set (getByPrefix (tracking_prefix (toString 1)) (cache ?s)).
                  snd session \<noteq> primary_key ''s1''"
    by simp
  note t = credential_change_sweep
    [where e = env0 and s = ?s and s' = ?s' and userId = 1
       and currentPassword = "''Secr3t!!''" and newPassword = "''N3wSecret!''",
     OF disjI1, OF changePassword_untracked_session]
  from t g n b have r: "cache_get (primary_key ''s1'') (cache ?s') = Some ''1''"
    by blast
  from untracked_session_state changePassword_untracked_session g n p r show ?thesis
    by blast
qed

section \<open>Logout\<close>

lemma cache_set_keeps: "cache_get k c \<noteq> None \<Longrightarrow> cache_get k (cache_set k' v c) \<noteq> None"
  by (simp add: cache_get_set)

lemma setSession_keeps: "cache_get k c \<noteq> None \<Longrightarrow> cache_get k (setSession sessionId userId c) \<noteq> None"
  by (simp add: cache_get_setSession)

lemma login_keeps:
  "cache_get k (cache s) \<noteq> None \<Longrightarrow> cache_get k (cache (snd (login e input rnd s))) \<noteq> None"
  by (auto simp: login_def Let_def cache_get_set cache_get_setSession split: option.splits)

lemma verifyTotp_keeps:
  "cache_get k (cache s) \<noteq> None \<Longrightarrow>
   cache_get k (cache (snd (verifyTotp e totpSessionId totpCode rnd s))) \<noteq> None"
  using verifyTotp_cache [of e totpSessionId totpCode rnd s]
  by (auto simp: cache_get_setSession)

lemma register_keeps:
  "cache_get k (cache s) \<noteq> None \<Longrightarrow> cache_get k (cache (snd (register e input rnd s))) \<noteq> None"
  by (auto simp: register_def createUser_def Let_def cache_get_setSession split: option.splits)

lemma getTotpUri_cache: "cache (snd (getTotpUri e userId pw secret rnd s)) = cache s"
  by (simp add: getTotpUri_def Let_def split: option.splits)

lemma setupTotp_cache: "cache (snd (setupTotp e userId totpCode s)) = cache s"
  by (simp add: setupTotp_def split: option.splits)

lemma disableTotp_cache: "cache (snd (disableTotp e userId pw s)) = cache s"
  by (simp add: disableTotp_def split: option.splits)

lemma changeOperatorPassword_cache: "cache (snd (changeOperatorPassword e newPassword s)) = cache s"
  by (simp add: changeOperatorPassword_def Let_def split: option.splits)

lemma cancelPasswordChangeRequest_cache: "cache (snd (cancelPasswordChangeRequest s)) = cache s"
  by (simp add: cancelPasswordChangeRequest_def)

lemma changeLocale_cache: "cache (snd (changeLocale e loc userId s)) = cache s"
  by (simp add: changeLocale_def split: option.splits)

lemma snd_thrown: "snd (thrown r) = snd r"
  by (simp add: thrown_def)

lemma fst_thrown: "fst (thrown r) = (case fst r of Inl err \<Rightarrow> Some err | Inr v \<Rightarrow> None)"
  by (simp add: thrown_def)

lemma run_key_disappears:
  assumes "cache_get k (cache s) \<noteq> None" and "cache_get k (cache (snd (run e r s))) = None"
  shows "(\<exists>sessionId. r = Logout sessionId \<and> k = primary_key sessionId)
       \<or> (\<exists>currentPassword newPassword userId. r = ChangePassword currentPassword newPassword userId)
       \<or> (\<exists>newUsername pw userId. r = ChangeUsername newUsername pw userId)"
proof (cases r)
  case (Logout sessionId)
  with assms show ?thesis
    by (auto simp: logout_def cache_get_del primary_key_def split: if_splits)
qed (use assms login_keeps verifyTotp_keeps register_keeps in
      \<open>auto simp: snd_thrown getTotpUri_cache setupTotp_cache disableTotp_cache
         changeOperatorPassword_cache cancelPasswordChangeRequest_cache changeLocale_cache\<close>)

lemma primary_is_tracking_colon:
  "primary_key sessionId = tracking_key userId sessionId' \<Longrightarrow> CHR '':'' \<in> set sessionId"
  by (auto simp: primary_key_def tracking_key_def tracking_prefix_def)

text \<open>
  Claim C10, as amended. For every session id \<open>logout\<close> returns true and deletes the
  key \<open>session:<sessionId>\<close> only: every other key keeps its value, in particular the
  tracking key \<open>session:<userId>:<sessionId>\<close> of that session, for every user id. For a
  session id without a colon (every uuid), \<open>logout\<close> leaves every tracking key. Over all
  operations, a key that is in the cache before and gone after is the key
  \<open>session:<sessionId>\<close> of a \<open>logout\<close>, or the operation is \<open>changePassword\<close> or
  \<open>changeUsername\<close>.
\<close>

theorem logout_keeps_tracking_key:
  "logout sessionId s = (True, s\<lparr>cache := cache_del (primary_key sessionId) (cache s)\<rparr>)
   \<and> cache_get (primary_key sessionId) (cache (snd (logout sessionId s))) = None
   \<and> (\<forall>k. k \<noteq> primary_key sessionId \<longrightarrow>
          cache_get k (cache (snd (logout sessionId s))) = cache_get k (cache s))
   \<and> (\<forall>userId. cache_get (tracking_key userId sessionId) (cache (snd (logout sessionId s)))
          = cache_get (tracking_key userId sessionId) (cache s))
   \<and> (CHR '':'' \<notin> set sessionId \<longrightarrow>
        (\<forall>userId sessionId'.
           cache_get (tracking_key userId sessionId') (cache (snd (logout sessionId s)))
           = cache_get (tracking_key userId sessionId') (cache s)))
   \<and> (\<forall>r k. cache_get k (cache s) \<noteq> None \<and> cache_get k (cache (snd (run e r s))) = None \<longrightarrow>
          (\<exists>sessionId. r = Logout sessionId \<and> k = primary_key sessionId)
          \<or> (\<exists>currentPassword newPassword userId. r = ChangePassword currentPassword newPassword userId)
          \<or> (\<exists>newUsername pw userId. r = ChangeUsername newUsername pw userId))"
proof (intro conjI allI impI)
  show "logout sessionId s = (True, s\<lparr>cache := cache_del (primary_key sessionId) (cache s)\<rparr>)"
    by (simp add: logout_def primary_key_def)
  then have c: "cache (snd (logout sessionId s)) = cache_del (primary_key sessionId) (cache s)"
    by simp
  show "cache_get (primary_key sessionId) (cache (snd (logout sessionId s))) = None"
    by (simp add: c cache_get_del)
  show "cache_get k (cache (snd (logout sessionId s))) = cache_get k (cache s)"
    if "k \<noteq> primary_key sessionId" for k
    using that by (simp add: c cache_get_del)
  show "cache_get (tracking_key userId sessionId) (cache (snd (logout sessionId s)))
          = cache_get (tracking_key userId sessionId) (cache s)" for userId
    using primary_not_tracking [of sessionId userId] by (simp add: c cache_get_del)
  show "cache_get (tracking_key userId sessionId') (cache (snd (logout sessionId s)))
           = cache_get (tracking_key userId sessionId') (cache s)"
    if "CHR '':'' \<notin> set sessionId" for userId sessionId'
    using that primary_is_tracking_colon [of sessionId userId sessionId']
    by (auto simp: c cache_get_del)
  show "(\<exists>sessionId. r = Logout sessionId \<and> k = primary_key sessionId)
          \<or> (\<exists>currentPassword newPassword userId. r = ChangePassword currentPassword newPassword userId)
          \<or> (\<exists>newUsername pw userId. r = ChangeUsername newUsername pw userId)"
    if "cache_get k (cache s) \<noteq> None \<and> cache_get k (cache (snd (run e r s))) = None" for r k
    using that run_key_disappears by blast
qed

theorem logout_keeps_tracking_key_witness:
  "''session:1:s1'' \<noteq> primary_key ''s1''
   \<and> CHR '':'' \<notin> set ''s1''
   \<and> fst (logout ''s1'' state1) = True
   \<and> cache_get ''session:s1'' (cache state1) = Some ''1''
   \<and> cache_get ''session:s1'' (cache (snd (logout ''s1'' state1))) = None
   \<and> cache_get ''session:1:s1'' (cache (snd (logout ''s1'' state1))) = Some ''s1''
   \<and> cache_get ''session:2:s9'' (cache (snd (logout ''s1'' state1))) = Some ''s9''"
proof -
  note t = logout_keeps_tracking_key [of "''s1''" state1 env0]
  have n: "''session:1:s1'' \<noteq> primary_key ''s1''"
    by (simp add: primary_key_def)
  have nc: "CHR '':'' \<notin> set ''s1''"
    by simp
  have k: "primary_key ''s1'' = ''session:s1''"
    by (simp add: primary_key_def)
  have k9: "tracking_key ''2'' ''s9'' = ''session:2:s9''"
    by (simp add: tracking_key_def tracking_prefix_def)
  have g: "cache_get ''session:s1'' (cache state1) = Some ''1''"
    and g1: "cache_get ''session:1:s1'' (cache state1) = Some ''s1''"
    and g9: "cache_get ''session:2:s9'' (cache state1) = Some ''s9''"
    by (simp_all add: state1_def cache_get_def)
  from t have r1: "fst (logout ''s1'' state1) = True"
    by simp
  from t k have r2: "cache_get ''session:s1'' (cache (snd (logout ''s1'' state1))) = None"
    by metis
  from t n g1 have r3: "cache_get ''session:1:s1'' (cache (snd (logout ''s1'' state1))) = Some ''s1''"
    by metis
  from t nc k9 g9 have r4: "cache_get ''session:2:s9'' (cache (snd (logout ''s1'' state1))) = Some ''s9''"
    by metis
  from n nc r1 g r2 r3 r4 show ?thesis by blast
qed

text \<open>
  Claim C10 as stated fails for a session id with a colon: after alice's login with the
  session \<open>s1\<close>, \<open>logout\<close> with the id \<open>1:s1\<close> deletes the key \<open>session:1:s1\<close>, which is
  the tracking key of the session \<open>s1\<close> of user 1, and leaves the primary key
  \<open>session:s1\<close>. A tracking key has been removed by \<open>logout\<close>, not by the sweep.
\<close>

theorem logout_removes_tracking_key_counterexample:
  "snd (login env0 alice_input ''s1'' state0)
     = state0\<lparr>cache := [(''session:1:s1'', ''s1''), (''session:s1'', ''1'')]\<rparr>
   \<and> tracking_key (toString 1) ''s1'' = ''session:'' @ ''1:s1''
   \<and> cache_get (tracking_key (toString 1) ''s1'') (cache (snd (login env0 alice_input ''s1'' state0)))
       = Some ''s1''
   \<and> cache_get (tracking_key (toString 1) ''s1'')
        (cache (snd (logout ''1:s1'' (snd (login env0 alice_input ''s1'' state0))))) = None
   \<and> cache_get (primary_key ''s1'')
        (cache (snd (logout ''1:s1'' (snd (login env0 alice_input ''s1'' state0))))) = Some ''1''"
  by (simp add: login_def logout_def Let_def setSession_def cache_set_def cache_del_def cache_get_def
      primary_key_def tracking_key_def tracking_prefix_def fixtures)

section \<open>Changing the password\<close>

lemma getUserById_updateUser:
  assumes "\<And>r. user_id (f r) = user_id r"
  shows "getUserById i (updateUser j f db) =
           (if i = j then map_option f (getUserById i db) else getUserById i db)"
  using assms by (induction db) (auto simp: getUserById_def updateUser_def)

text \<open>
  Claim C9. \<open>changePassword\<close> succeeds exactly when demo mode is off, the user exists, the
  current password verifies against the stored hash and the new password has at least 8
  characters; the stored hash of the user is then the hash of the new password. With a
  new password of fewer than 8 characters and the other conditions met, it fails with
  \<open>InvalidPasswordLength\<close> and leaves the state, so the stored hash, unchanged.
\<close>

theorem changePassword_preconditions:
  "(fst (changePassword e currentPassword newPassword userId s) = Inr True \<longleftrightarrow>
      \<not> demoMode s
      \<and> (\<exists>u. getUserById userId (users s) = Some u
               \<and> argon2_verify e (password u) currentPassword)
      \<and> 8 \<le> length newPassword)
   \<and> (\<forall>u. fst (changePassword e currentPassword newPassword userId s) = Inr True
            \<and> getUserById userId (users s) = Some u \<longrightarrow>
          getUserById userId (users (snd (changePassword e currentPassword newPassword userId s)))
            = Some (u\<lparr>password := argon2_hash e newPassword\<rparr>))
   \<and> (\<forall>u. \<not> demoMode s \<and> getUserById userId (users s) = Some u
            \<and> argon2_verify e (password u) currentPassword \<and> length newPassword < 8 \<longrightarrow>
          changePassword e currentPassword newPassword userId s = (Inl InvalidPasswordLength, s)
          \<and> getUserById userId (users (snd (changePassword e currentPassword newPassword userId s)))
              = Some u)"
proof (intro conjI allI impI)
  show "fst (changePassword e currentPassword newPassword userId s) = Inr True \<longleftrightarrow>
      \<not> demoMode s
      \<and> (\<exists>u. getUserById userId (users s) = Some u
               \<and> argon2_verify e (password u) currentPassword)
      \<and> 8 \<le> length newPassword"
    by (auto simp: changePassword_def Let_def split: option.splits)
next
  fix u
  assume a: "fst (changePassword e currentPassword newPassword userId s) = Inr True
            \<and> getUserById userId (users s) = Some u"
  then have i: "user_id u = userId"
    using getUserById_id by blast
  from a have "users (snd (changePassword e currentPassword newPassword userId s))
                 = updateUser userId (\<lambda>r. r\<lparr>password := argon2_hash e newPassword\<rparr>) (users s)"
    by (auto simp: changePassword_def Let_def i split: option.splits if_splits)
  with a show "getUserById userId (users (snd (changePassword e currentPassword newPassword userId s)))
            = Some (u\<lparr>password := argon2_hash e newPassword\<rparr>)"
    by (simp add: getUserById_updateUser)
next
  fix u
  assume a: "\<not> demoMode s \<and> getUserById userId (users s) = Some u
            \<and> argon2_verify e (password u) currentPassword \<and> length newPassword < 8"
  then show "changePassword e currentPassword newPassword userId s = (Inl InvalidPasswordLength, s)"
    by (simp add: changePassword_def)
  with a show "getUserById userId (users (snd (changePassword e currentPassword newPassword userId s)))
              = Some u"
    by simp
qed

theorem changePassword_preconditions_witness:
  "\<not> demoMode state1
   \<and> getUserById 1 (users state1) = Some alice
   \<and> argon2_verify env0 (password alice) ''Secr3t!!''
   \<and> 8 \<le> length ''N3wSecret!''
   \<and> fst (changePassword env0 ''Secr3t!!'' ''N3wSecret!'' 1 state1) = Inr True
   \<and> getUserById 1 (users (snd (changePassword env0 ''Secr3t!!'' ''N3wSecret!'' 1 state1)))
        = Some (alice\<lparr>password := ''$N3wSecret!''\<rparr>)
   \<and> length ''short77'' < 8
   \<and> changePassword env0 ''Secr3t!!'' ''short77'' 1 state1 = (Inl InvalidPasswordLength, state1)
   \<and> getUserById 1 (users (snd (changePassword env0 ''Secr3t!!'' ''short77'' 1 state1))) = Some alice"
proof -
  have d: "\<not> demoMode state1"
    by (simp add: state1_def)
  have u: "getUserById 1 (users state1) = Some alice"
    by (simp add: fixtures)
  have v: "argon2_verify env0 (password alice) ''Secr3t!!''"
    by (simp add: fixtures)
  have l: "8 \<le> length ''N3wSecret!''"
    by simp
  have l': "length ''short77'' < 8"
    by simp
  have h: "argon2_hash env0 ''N3wSecret!'' = ''$N3wSecret!''"
    by (simp add: env0_def)
  note t = changePassword_preconditions [of env0 "''Secr3t!!''" "''N3wSecret!''" 1 state1]
  note t' = changePassword_preconditions [of env0 "''Secr3t!!''" "''short77''" 1 state1]
  from t d u v l have r1: "fst (changePassword env0 ''Secr3t!!'' ''N3wSecret!'' 1 state1) = Inr True"
    by blast
  from t r1 u have "getUserById 1 (users (snd (changePassword env0 ''Secr3t!!'' ''N3wSecret!'' 1 state1)))
        = Some (alice\<lparr>password := argon2_hash env0 ''N3wSecret!''\<rparr>)"
    by blast
  then have r2: "getUserById 1 (users (snd (changePassword env0 ''Secr3t!!'' ''N3wSecret!'' 1 state1)))
        = Some (alice\<lparr>password := ''$N3wSecret!''\<rparr>)"
    by (simp only: h)
  from t' d u v l'
  have r3: "changePassword env0 ''Secr3t!!'' ''short77'' 1 state1 = (Inl InvalidPasswordLength, state1)"
    and r4: "getUserById 1 (users (snd (changePassword env0 ''Secr3t!!'' ''short77'' 1 state1))) = Some alice"
    by blast+
  from d u v l r1 r2 l' r3 r4 show ?thesis by blast
qed

section \<open>Resetting the operator's password\<close>

lemma getFirstOperator_updateUser:
  assumes "\<And>r. operator (f r) = operator r"
  shows "getFirstOperator (updateUser j f db) =
           map_option (\<lambda>u. if user_id u = j then f u else u) (getFirstOperator db)"
  using assms by (induction db) (auto simp: getFirstOperator_def updateUser_def)

lemma fileExists_unlinkFile: "\<not> fileExists p (unlinkFile p fs)"
  by (simp add: fileExists_def unlinkFile_def)

lemma changeOperatorPassword_no_request:
  "\<not> fileExists request_path (files s) \<Longrightarrow>
   changeOperatorPassword e newPassword s = (Inl NoChangePasswordRequest, s)"
  by (simp add: changeOperatorPassword_def checkPasswordChangeRequest_def)

lemma changeOperatorPassword_success:
  assumes "fileExists request_path (files s)" and "getFirstOperator (users s) = Some u"
  shows "changeOperatorPassword e newPassword s =
           (Inr (username u),
            s\<lparr>users := updateUser (user_id u)
                 (\<lambda>r. r\<lparr>password := argon2_hash e newPassword, totpEnabled := False, totpSecret := None\<rparr>)
                 (users s),
              files := unlinkFile request_path (files s)\<rparr>)"
  using assms by (simp add: changeOperatorPassword_def checkPasswordChangeRequest_def)

text \<open>
  Claim C5. \<open>changeOperatorPassword\<close> succeeds exactly when the request file exists and
  an operator row exists. It then returns the operator's username, the operator row holds
  the hash of the new password with \<open>totpEnabled\<close> false and \<open>totpSecret\<close> null, the
  request file is gone, and a call that follows at once fails with
  \<open>NoChangePasswordRequest\<close>.
\<close>

theorem changeOperatorPassword_consumes_request:
  "((\<exists>email. fst (changeOperatorPassword e newPassword s) = Inr email) \<longleftrightarrow>
      fileExists request_path (files s) \<and> getFirstOperator (users s) \<noteq> None)
   \<and> (\<forall>u. fileExists request_path (files s) \<and> getFirstOperator (users s) = Some u \<longrightarrow>
          fst (changeOperatorPassword e newPassword s) = Inr (username u)
          \<and> getFirstOperator (users (snd (changeOperatorPassword e newPassword s)))
              = Some (u\<lparr>password := argon2_hash e newPassword, totpEnabled := False, totpSecret := None\<rparr>)
          \<and> \<not> fileExists request_path (files (snd (changeOperatorPassword e newPassword s)))
          \<and> changeOperatorPassword e newPassword' (snd (changeOperatorPassword e newPassword s))
              = (Inl NoChangePasswordRequest, snd (changeOperatorPassword e newPassword s)))"
proof (intro conjI allI impI)
  show "(\<exists>email. fst (changeOperatorPassword e newPassword s) = Inr email) \<longleftrightarrow>
      fileExists request_path (files s) \<and> getFirstOperator (users s) \<noteq> None"
    by (auto simp: changeOperatorPassword_def checkPasswordChangeRequest_def split: option.splits)
next
  fix u
  assume a: "fileExists request_path (files s) \<and> getFirstOperator (users s) = Some u"
  note r = changeOperatorPassword_success [OF conjunct1 [OF a] conjunct2 [OF a], of e newPassword]
  show "fst (changeOperatorPassword e newPassword s) = Inr (username u)"
    by (simp add: r)
  show "getFirstOperator (users (snd (changeOperatorPassword e newPassword s)))
              = Some (u\<lparr>password := argon2_hash e newPassword, totpEnabled := False, totpSecret := None\<rparr>)"
    using a by (simp add: r getFirstOperator_updateUser)
  show n: "\<not> fileExists request_path (files (snd (changeOperatorPassword e newPassword s)))"
    by (simp add: r fileExists_unlinkFile)
  show "changeOperatorPassword e newPassword' (snd (changeOperatorPassword e newPassword s))
              = (Inl NoChangePasswordRequest, snd (changeOperatorPassword e newPassword s))"
    using n by (rule changeOperatorPassword_no_request)
qed

theorem changeOperatorPassword_consumes_request_witness:
  "fileExists request_path (files state1)
   \<and> getFirstOperator (users state1) = Some alice
   \<and> fst (changeOperatorPassword env0 ''N3wSecret!'' state1) = Inr ''a@example.com''
   \<and> getFirstOperator (users (snd (changeOperatorPassword env0 ''N3wSecret!'' state1)))
       = Some (alice\<lparr>password := ''$N3wSecret!'', totpEnabled := False, totpSecret := None\<rparr>)
   \<and> \<not> fileExists request_path (files (snd (changeOperatorPassword env0 ''N3wSecret!'' state1)))
   \<and> fst (changeOperatorPassword env0 ''Other123!'' (snd (changeOperatorPassword env0 ''N3wSecret!'' state1)))
       = Inl NoChangePasswordRequest"
proof -
  have f: "fileExists request_path (files state1)"
    by (simp add: state1_def fileExists_def)
  have o: "getFirstOperator (users state1) = Some alice"
    by (simp add: state1_def getFirstOperator_def alice_def)
  have h: "argon2_hash env0 ''N3wSecret!'' = ''$N3wSecret!''"
    by (simp add: env0_def)
  have n: "username alice = ''a@example.com''"
    by (simp add: alice_def)
  note t = changeOperatorPassword_consumes_request [of env0 "''N3wSecret!''" state1 "''Other123!''"]
  from t f o have r1: "fst (changeOperatorPassword env0 ''N3wSecret!'' state1) = Inr (username alice)"
    and r2: "getFirstOperator (users (snd (changeOperatorPassword env0 ''N3wSecret!'' state1)))
       = Some (alice\<lparr>password := argon2_hash env0 ''N3wSecret!'', totpEnabled := False, totpSecret := None\<rparr>)"
    and r3: "\<not> fileExists request_path (files (snd (changeOperatorPassword env0 ''N3wSecret!'' state1)))"
    and r4: "changeOperatorPassword env0 ''Other123!'' (snd (changeOperatorPassword env0 ''N3wSecret!'' state1))
       = (Inl NoChangePasswordRequest, snd (changeOperatorPassword env0 ''N3wSecret!'' state1))"
    by blast+
  from r4 have r4': "fst (changeOperatorPassword env0 ''Other123!'' (snd (changeOperatorPassword env0 ''N3wSecret!'' state1)))
       = Inl NoChangePasswordRequest"
    by simp
  from f o r1 [unfolded n] r2 [unfolded h] r3 r4' show ?thesis by blast
qed

section \<open>Failures leave the state\<close>

















section \<open>A single operator\<close>

lemma getOperators_updateUser:
  assumes "\<And>r. operator (f r) = operator r"
  shows "length (getOperators (updateUser j f db)) = length (getOperators db)"
  using assms by (induction db) (auto simp: getOperators_def updateUser_def)

lemma login_users: "users (snd (login e input rnd s)) = users s"
  by (simp add: login_def Let_def split: option.splits)

lemma verifyTotp_users: "users (snd (verifyTotp e totpSessionId totpCode rnd s)) = users s"
  by (simp add: verifyTotp_def Let_def split: option.splits)

lemma logout_users: "users (snd (logout sessionId s)) = users s"
  by (simp add: logout_def)

lemma cancelPasswordChangeRequest_users: "users (snd (cancelPasswordChangeRequest s)) = users s"
  by (simp add: cancelPasswordChangeRequest_def)

lemma getTotpUri_operators:
  "length (getOperators (users (snd (getTotpUri e userId pw secret rnd s)))) = length (getOperators (users s))"
  by (simp add: getTotpUri_def Let_def getOperators_updateUser split: option.splits)

lemma setupTotp_operators:
  "length (getOperators (users (snd (setupTotp e userId totpCode s)))) = length (getOperators (users s))"
  by (simp add: setupTotp_def getOperators_updateUser split: option.splits)

lemma disableTotp_operators:
  "length (getOperators (users (snd (disableTotp e userId pw s)))) = length (getOperators (users s))"
  by (simp add: disableTotp_def getOperators_updateUser split: option.splits)

lemma changeOperatorPassword_operators:
  "length (getOperators (users (snd (changeOperatorPassword e newPassword s)))) = length (getOperators (users s))"
  by (simp add: changeOperatorPassword_def Let_def getOperators_updateUser split: option.splits)

lemma changePassword_operators:
  "length (getOperators (users (snd (changePassword e currentPassword newPassword userId s))))
     = length (getOperators (users s))"
  by (simp add: changePassword_def Let_def getOperators_updateUser split: option.splits)

lemma changeUsername_operators:
  "length (getOperators (users (snd (changeUsername e newUsername pw userId s))))
     = length (getOperators (users s))"
  by (simp add: changeUsername_def Let_def getOperators_updateUser split: option.splits)

lemma changeLocale_operators:
  "length (getOperators (users (snd (changeLocale e loc userId s)))) = length (getOperators (users s))"
  by (simp add: changeLocale_def getOperators_updateUser split: option.splits)

lemma register_operator_exists:
  "getOperators (users s) \<noteq> [] \<Longrightarrow> register e input rnd s = (Inl AdminAlreadyExists, s)"
  by (simp add: register_def)

lemma register_operators:
  "length (getOperators (users (snd (register e input rnd s)))) =
     (if fst (register e input rnd s) = Inr True then 1 else length (getOperators (users s)))"
  by (auto simp: register_def createUser_def Let_def getOperators_def split: option.splits)

lemma run_single_operator:
  assumes "single_operator (users s)"
  shows "single_operator (users (snd (run e r s)))"
  using assms
  by (cases r)
     (simp_all add: single_operator_def snd_thrown login_users verifyTotp_users logout_users
        cancelPasswordChangeRequest_users getTotpUri_operators setupTotp_operators
        disableTotp_operators changeOperatorPassword_operators changePassword_operators
        changeUsername_operators changeLocale_operators register_operators)

lemma runs_single_operator:
  "single_operator (users s) \<Longrightarrow> single_operator (users (runs e rs s))"
  by (induction rs arbitrary: s) (simp_all add: run_single_operator)

text \<open>
  Claim C4. At most one row is an operator in every state the service reaches: the
  property holds for the empty table and every sequence of requests keeps it. Whenever an
  operator row exists, \<open>register\<close> fails with \<open>AdminAlreadyExists\<close> whatever username and
  password are supplied, and the state, so the user table, is unchanged.
\<close>

theorem register_single_operator:
  "(users s = [] \<longrightarrow> single_operator (users (runs e rs s)))
   \<and> (single_operator (users s) \<longrightarrow> single_operator (users (runs e rs s)))
   \<and> (getOperators (users s) \<noteq> [] \<longrightarrow> register e input rnd s = (Inl AdminAlreadyExists, s))"
proof (intro conjI impI)
  assume "users s = []"
  then have "single_operator (users s)"
    by (simp add: single_operator_def getOperators_def)
  then show "single_operator (users (runs e rs s))"
    by (rule runs_single_operator)
next
  assume "single_operator (users s)"
  then show "single_operator (users (runs e rs s))"
    by (rule runs_single_operator)
next
  assume "getOperators (users s) \<noteq> []"
  then show "register e input rnd s = (Inl AdminAlreadyExists, s)"
    by (rule register_operator_exists)
qed


lemma normalise_alice: "toLowerCase_ascii (trim_ascii ''a@example.com'') = ''a@example.com''"
  by (simp add: trim_ascii_def toLowerCase_ascii_def isWhiteSpace_def lowerCaseOf_def)

lemma register_state_init:
  "register env0 alice_input ''s1'' state_init =
     (Inr True, state_init\<lparr>users := [alice],
                  cache := [(''session:1:s1'', ''s1''), (''session:s1'', ''1'')]\<rparr>)"
  by (simp add: register_def Let_def normalise_alice createUser_def nextId_def state_init_def
      getOperators_def alice_input_def env0_def getUserByUsername_def alice_def toString_1
      setSession_def cache_set_def cache_del_def primary_key_def tracking_key_def
      tracking_prefix_def)

theorem register_single_operator_witness:
  "users state_init = []
   \<and> single_operator (users (runs env0 [Register alice_input ''s1'', Register bob_input ''s2''] state_init))
   \<and> users (runs env0 [Register alice_input ''s1'', Register bob_input ''s2''] state_init) = [alice]
   \<and> single_operator (users state1)
   \<and> single_operator (users (runs env0 [ChangeLocale ''fr'' 1] state1))
   \<and> getOperators (users state1) \<noteq> []
   \<and> register env0 bob_input ''s2'' state1 = (Inl AdminAlreadyExists, state1)"
proof -
  have i: "users state_init = []"
    by (simp add: state_init_def)
  have o: "getOperators (users state1) \<noteq> []"
    by (simp add: state1_def getOperators_def alice_def)
  have o1: "single_operator (users state1)"
    by (simp add: state1_def single_operator_def getOperators_def alice_def bob_def)
  have a: "getOperators [alice] \<noteq> []"
    by (simp add: getOperators_def alice_def)
  note t = register_single_operator
    [of state_init env0 "[Register alice_input ''s1'', Register bob_input ''s2'']"]
  note t1 = register_single_operator [of state1 env0 "[ChangeLocale ''fr'' 1]" bob_input "''s2''"]
  from t i
  have r1: "single_operator (users (runs env0 [Register alice_input ''s1'', Register bob_input ''s2''] state_init))"
    by blast
  have r2: "users (runs env0 [Register alice_input ''s1'', Register bob_input ''s2''] state_init) = [alice]"
  proof -
    let ?s = "state_init\<lparr>users := [alice],
                cache := [(''session:1:s1'', ''s1''), (''session:s1'', ''1'')]\<rparr>"
    have "register env0 bob_input ''s2'' ?s = (Inl AdminAlreadyExists, ?s)"
      by (rule register_operator_exists) (simp add: a)
    then show ?thesis
      by (simp add: register_state_init thrown_def)
  qed
  from t1 o1 have r3: "single_operator (users (runs env0 [ChangeLocale ''fr'' 1] state1))"
    by blast
  from t1 o have r4: "register env0 bob_input ''s2'' state1 = (Inl AdminAlreadyExists, state1)"
    by blast
  from i r1 r2 o1 r3 o r4 show ?thesis by blast
qed

section \<open>TOTP enrolment\<close>

lemma unique_ids_updateUser:
  assumes "\<And>r. user_id (f r) = user_id r"
  shows "unique_ids (updateUser j f db) = unique_ids db"
proof -
  have "map user_id (updateUser j f db) = map user_id db"
    using assms by (induction db) (simp_all add: updateUser_def)
  then show ?thesis by (simp add: unique_ids_def)
qed

lemma totp_invariant_updateUser:
  assumes "totp_invariant db"
    and "\<And>u. u \<in> set db \<Longrightarrow> user_id u = j \<Longrightarrow> totp_enrolled_ok (f u)"
  shows "totp_invariant (updateUser j f db)"
  using assms by (auto simp: totp_invariant_def updateUser_def list_all_iff)

lemma getUserById_member: "getUserById j db = Some u \<Longrightarrow> u \<in> set db"
  by (auto simp: getUserById_def find_Some_iff)

lemma unique_row:
  assumes "unique_ids db" and "getUserById j db = Some u" and "u' \<in> set db" and "user_id u' = j"
  shows "u' = u"
proof -
  from assms(1) have "inj_on user_id (set db)"
    by (simp add: unique_ids_def distinct_map)
  moreover from assms(2) have "u \<in> set db" "user_id u = j"
    by (simp_all add: getUserById_member getUserById_id)
  ultimately show ?thesis
    using assms(3,4) by (auto dest: inj_onD)
qed

lemma nextId_fresh: "u \<in> set db \<Longrightarrow> user_id u < nextId db"
  by (induction db) (auto simp: nextId_def)

lemma unique_ids_append_new:
  assumes "unique_ids db" and "user_id new = nextId db"
  shows "unique_ids (db @ [new])"
  using assms nextId_fresh [of _ db] by (fastforce simp: unique_ids_def)

lemma totp_invariant_member: "totp_invariant db \<Longrightarrow> u \<in> set db \<Longrightarrow> totp_enrolled_ok u"
  by (simp add: totp_invariant_def list_all_iff)

lemma getTotpUri_table:
  assumes "unique_ids (users s)" and "totp_invariant (users s)"
  shows "unique_ids (users (snd (getTotpUri e userId pw secret rnd s)))
       \<and> totp_invariant (users (snd (getTotpUri e userId pw secret rnd s)))"
  using assms
  by (auto simp: getTotpUri_def Let_def unique_ids_updateUser totp_enrolled_ok_def
      intro!: totp_invariant_updateUser split: option.splits)

lemma setupTotp_table:
  assumes "unique_ids (users s)" and "totp_invariant (users s)"
  shows "unique_ids (users (snd (setupTotp e userId totpCode s)))
       \<and> totp_invariant (users (snd (setupTotp e userId totpCode s)))"
proof (cases "fst (setupTotp e userId totpCode s) = Inr True")
  case False
  then have "snd (setupTotp e userId totpCode s) = s"
    by (auto simp: setupTotp_def split: option.splits if_splits)
  with assms show ?thesis by simp
next
  case True
  then obtain u where u: "getUserById userId (users s) = Some u"
    and t: "\<not> falsy (totpSecret u)" "\<not> falsy (salt u)"
    and r: "users (snd (setupTotp e userId totpCode s))
              = updateUser userId (\<lambda>r. r\<lparr>totpEnabled := True\<rparr>) (users s)"
    by (auto simp: setupTotp_def split: option.splits if_splits)
  have "totp_enrolled_ok (u'\<lparr>totpEnabled := True\<rparr>)"
    if "u' \<in> set (users s)" and "user_id u' = userId" for u'
  proof -
    from unique_row [OF assms(1) u that] have "u' = u" .
    with t show ?thesis
      by (auto simp: totp_enrolled_ok_def falsy_def split: option.splits)
  qed
  with assms show ?thesis
    by (simp add: r unique_ids_updateUser totp_invariant_updateUser)
qed

lemma disableTotp_table:
  assumes "unique_ids (users s)" and "totp_invariant (users s)"
  shows "unique_ids (users (snd (disableTotp e userId pw s)))
       \<and> totp_invariant (users (snd (disableTotp e userId pw s)))"
  using assms
  by (auto simp: disableTotp_def unique_ids_updateUser totp_enrolled_ok_def
      intro!: totp_invariant_updateUser split: option.splits)

lemma changeOperatorPassword_table:
  assumes "unique_ids (users s)" and "totp_invariant (users s)"
  shows "unique_ids (users (snd (changeOperatorPassword e newPassword s)))
       \<and> totp_invariant (users (snd (changeOperatorPassword e newPassword s)))"
  using assms
  by (auto simp: changeOperatorPassword_def Let_def unique_ids_updateUser totp_enrolled_ok_def
      intro!: totp_invariant_updateUser split: option.splits)

lemma changePassword_table:
  assumes "unique_ids (users s)" and "totp_invariant (users s)"
  shows "unique_ids (users (snd (changePassword e currentPassword newPassword userId s)))
       \<and> totp_invariant (users (snd (changePassword e currentPassword newPassword userId s)))"
  using assms totp_invariant_member [OF assms(2)]
  by (auto simp: changePassword_def Let_def unique_ids_updateUser totp_enrolled_ok_def
      intro!: totp_invariant_updateUser split: option.splits)

lemma changeUsername_table:
  assumes "unique_ids (users s)" and "totp_invariant (users s)"
  shows "unique_ids (users (snd (changeUsername e newUsername pw userId s)))
       \<and> totp_invariant (users (snd (changeUsername e newUsername pw userId s)))"
  using assms totp_invariant_member [OF assms(2)]
  by (auto simp: changeUsername_def Let_def unique_ids_updateUser totp_enrolled_ok_def
      intro!: totp_invariant_updateUser split: option.splits)

lemma changeLocale_table:
  assumes "unique_ids (users s)" and "totp_invariant (users s)"
  shows "unique_ids (users (snd (changeLocale e loc userId s)))
       \<and> totp_invariant (users (snd (changeLocale e loc userId s)))"
  using assms totp_invariant_member [OF assms(2)]
  by (auto simp: changeLocale_def unique_ids_updateUser totp_enrolled_ok_def
      intro!: totp_invariant_updateUser split: option.splits)

lemma register_table:
  assumes "unique_ids (users s)" and "totp_invariant (users s)"
  shows "unique_ids (users (snd (register e input rnd s)))
       \<and> totp_invariant (users (snd (register e input rnd s)))"
  using assms
  by (auto simp: register_def createUser_def Let_def unique_ids_append_new totp_invariant_def
      totp_enrolled_ok_def split: option.splits)

lemma run_table:
  assumes "unique_ids (users s)" and "totp_invariant (users s)"
  shows "unique_ids (users (snd (run e r s))) \<and> totp_invariant (users (snd (run e r s)))"
  using assms
  by (cases r)
     (simp_all add: snd_thrown login_users verifyTotp_users logout_users
        cancelPasswordChangeRequest_users getTotpUri_table setupTotp_table disableTotp_table
        changeOperatorPassword_table changePassword_table changeUsername_table
        changeLocale_table register_table)

lemma runs_table:
  "unique_ids (users s) \<Longrightarrow> totp_invariant (users s) \<Longrightarrow>
   unique_ids (users (runs e rs s)) \<and> totp_invariant (users (runs e rs s))"
  by (induction rs arbitrary: s) (simp_all add: run_table)


lemma setupTotp_success:
  assumes "fst (setupTotp e userId totpCode s) = Inr True"
    and "getUserById userId (users s) = Some u"
  shows "\<not> totpEnabled u \<and> \<not> falsy (totpSecret u) \<and> \<not> falsy (salt u)
       \<and> users (snd (setupTotp e userId totpCode s))
           = updateUser userId (\<lambda>r. r\<lparr>totpEnabled := True\<rparr>) (users s)"
  using assms by (auto simp: setupTotp_def split: option.splits if_splits)

lemma disableTotp_success:
  assumes "fst (disableTotp e userId pw s) = Inr True"
  shows "users (snd (disableTotp e userId pw s))
           = updateUser userId (\<lambda>r. r\<lparr>totpEnabled := False, totpSecret := None\<rparr>) (users s)"
  using assms by (auto simp: disableTotp_def split: option.splits if_splits)

lemma not_falsy_Some: "\<not> falsy x \<Longrightarrow> x \<noteq> None"
  by (auto simp: falsy_def split: option.splits)

text \<open>
  Claim C7. Every operation keeps the invariant that a row with \<open>totpEnabled\<close> true has
  a \<open>totpSecret\<close> and a \<open>salt\<close>, in a table whose ids are unique: it holds after every
  sequence of requests from a table that has it, the empty table among them. \<open>setupTotp\<close>
  sets \<open>totpEnabled\<close> only in a row that has both already; \<open>disableTotp\<close> and
  \<open>changeOperatorPassword\<close> set \<open>totpEnabled\<close> to false in the update that nulls
  \<open>totpSecret\<close>.
\<close>

theorem totp_invariant_preserved:
  "(unique_ids (users s) \<and> totp_invariant (users s) \<longrightarrow>
      unique_ids (users (runs e rs s)) \<and> totp_invariant (users (runs e rs s)))
   \<and> (users s = [] \<longrightarrow> totp_invariant (users (runs e rs s)))
   \<and> (\<forall>u. fst (setupTotp e userId totpCode s) = Inr True \<and> getUserById userId (users s) = Some u \<longrightarrow>
          totpSecret u \<noteq> None \<and> salt u \<noteq> None
          \<and> getUserById userId (users (snd (setupTotp e userId totpCode s)))
              = Some (u\<lparr>totpEnabled := True\<rparr>))
   \<and> (\<forall>u. fst (disableTotp e userId pw s) = Inr True \<and> getUserById userId (users s) = Some u \<longrightarrow>
          getUserById userId (users (snd (disableTotp e userId pw s)))
            = Some (u\<lparr>totpEnabled := False, totpSecret := None\<rparr>))
   \<and> (\<forall>u. fileExists request_path (files s) \<and> getFirstOperator (users s) = Some u \<longrightarrow>
          getFirstOperator (users (snd (changeOperatorPassword e newPassword s)))
            = Some (u\<lparr>password := argon2_hash e newPassword, totpEnabled := False, totpSecret := None\<rparr>))"
proof (intro conjI allI impI)
  assume a: "unique_ids (users s) \<and> totp_invariant (users s)"
  from runs_table [OF conjunct1 [OF a] conjunct2 [OF a]]
  show "unique_ids (users (runs e rs s))" and "totp_invariant (users (runs e rs s))"
    by simp_all
next
  assume "users s = []"
  then have "unique_ids (users s)" "totp_invariant (users s)"
    by (simp_all add: unique_ids_def totp_invariant_def)
  then show "totp_invariant (users (runs e rs s))"
    by (simp add: runs_table)
next
  fix u
  assume a: "fst (setupTotp e userId totpCode s) = Inr True \<and> getUserById userId (users s) = Some u"
  note r = setupTotp_success [OF conjunct1 [OF a] conjunct2 [OF a]]
  from r show "totpSecret u \<noteq> None" and "salt u \<noteq> None"
    by (simp_all add: not_falsy_Some)
  from r a show "getUserById userId (users (snd (setupTotp e userId totpCode s)))
              = Some (u\<lparr>totpEnabled := True\<rparr>)"
    by (simp add: getUserById_updateUser)
next
  fix u
  assume a: "fst (disableTotp e userId pw s) = Inr True \<and> getUserById userId (users s) = Some u"
  then show "getUserById userId (users (snd (disableTotp e userId pw s)))
            = Some (u\<lparr>totpEnabled := False, totpSecret := None\<rparr>)"
    by (simp add: disableTotp_success getUserById_updateUser)
next
  fix u
  assume a: "fileExists request_path (files s) \<and> getFirstOperator (users s) = Some u"
  then show "getFirstOperator (users (snd (changeOperatorPassword e newPassword s)))
            = Some (u\<lparr>password := argon2_hash e newPassword, totpEnabled := False, totpSecret := None\<rparr>)"
    by (simp add: changeOperatorPassword_success getFirstOperator_updateUser)
qed

lemma setupTotp_carol: "fst (setupTotp env0 3 ''SEED3'' state2) = Inr True"
  by (simp add: setupTotp_def state2_def getUserById_def alice_def bob_def carol_def falsy_def env0_def)

lemma disableTotp_bob: "fst (disableTotp env0 2 ''hunter22'' state2) = Inr True"
  by (simp add: disableTotp_def state2_def getUserById_def alice_def bob_def env0_def)

theorem totp_invariant_preserved_witness:
  "unique_ids (users state2) \<and> totp_invariant (users state2)
   \<and> unique_ids (users (runs env0 [SetupTotp 3 ''SEED3'', DisableTotp 2 ''hunter22''] state2))
   \<and> totp_invariant (users (runs env0 [SetupTotp 3 ''SEED3'', DisableTotp 2 ''hunter22''] state2))
   \<and> users state_init = []
   \<and> totp_invariant (users (runs env0 [Register alice_input ''s1''] state_init))
   \<and> fst (setupTotp env0 3 ''SEED3'' state2) = Inr True
   \<and> getUserById 3 (users state2) = Some carol
   \<and> totpSecret carol \<noteq> None \<and> salt carol \<noteq> None
   \<and> getUserById 3 (users (snd (setupTotp env0 3 ''SEED3'' state2))) = Some (carol\<lparr>totpEnabled := True\<rparr>)
   \<and> fst (disableTotp env0 2 ''hunter22'' state2) = Inr True
   \<and> getUserById 2 (users state2) = Some bob
   \<and> getUserById 2 (users (snd (disableTotp env0 2 ''hunter22'' state2)))
       = Some (bob\<lparr>totpEnabled := False, totpSecret := None\<rparr>)
   \<and> fileExists request_path (files state1)
   \<and> getFirstOperator (users state1) = Some alice
   \<and> getFirstOperator (users (snd (changeOperatorPassword env0 ''N3wSecret!'' state1)))
       = Some (alice\<lparr>password := argon2_hash env0 ''N3wSecret!'', totpEnabled := False, totpSecret := None\<rparr>)"
proof -
  have u: "unique_ids (users state2)"
    by (simp add: unique_ids_def state2_def alice_def bob_def carol_def)
  have i: "totp_invariant (users state2)"
    by (simp add: totp_invariant_def totp_enrolled_ok_def state2_def alice_def bob_def carol_def)
  have e: "users state_init = []"
    by (simp add: state_init_def)
  have c: "getUserById 3 (users state2) = Some carol"
    by (simp add: state2_def getUserById_def alice_def bob_def carol_def)
  have b: "getUserById 2 (users state2) = Some bob"
    by (simp add: state2_def getUserById_def alice_def bob_def)
  have f: "fileExists request_path (files state1)"
    by (simp add: state1_def fileExists_def)
  have o: "getFirstOperator (users state1) = Some alice"
    by (simp add: state1_def getFirstOperator_def alice_def)
  note t = totp_invariant_preserved
    [where s = state2 and e = env0 and rs = "[SetupTotp 3 ''SEED3'', DisableTotp 2 ''hunter22'']"
       and userId = 3 and totpCode = "''SEED3''"]
  note t0 = totp_invariant_preserved
    [where s = state_init and e = env0 and rs = "[Register alice_input ''s1'']"]
  note t2 = totp_invariant_preserved
    [where s = state2 and e = env0 and userId = 2 and pw = "''hunter22''"]
  note t1 = totp_invariant_preserved
    [where s = state1 and e = env0 and newPassword = "''N3wSecret!''"]
  from t u i
  have r1: "unique_ids (users (runs env0 [SetupTotp 3 ''SEED3'', DisableTotp 2 ''hunter22''] state2))"
    and r2: "totp_invariant (users (runs env0 [SetupTotp 3 ''SEED3'', DisableTotp 2 ''hunter22''] state2))"
    by blast+
  from t0 e have r3: "totp_invariant (users (runs env0 [Register alice_input ''s1''] state_init))"
    by blast
  from t setupTotp_carol c
  have r4: "totpSecret carol \<noteq> None" and r5: "salt carol \<noteq> None"
    and r6: "getUserById 3 (users (snd (setupTotp env0 3 ''SEED3'' state2))) = Some (carol\<lparr>totpEnabled := True\<rparr>)"
    by blast+
  from t2 disableTotp_bob b
  have r7: "getUserById 2 (users (snd (disableTotp env0 2 ''hunter22'' state2)))
       = Some (bob\<lparr>totpEnabled := False, totpSecret := None\<rparr>)"
    by blast
  from t1 f o
  have r8: "getFirstOperator (users (snd (changeOperatorPassword env0 ''N3wSecret!'' state1)))
       = Some (alice\<lparr>password := argon2_hash env0 ''N3wSecret!'', totpEnabled := False, totpSecret := None\<rparr>)"
    by blast
  from u i r1 r2 e r3 setupTotp_carol c r4 r5 r6 disableTotp_bob b r7 f o r8 show ?thesis
    by blast
qed

end
